theory Spec2Isabelle
  imports Main "HOL-Library.Sublist"
begin

section \<open>erddapy.core.interfaces: URL responses handed to third-party libraries\<close>

text \<open>
  The module \<^verbatim>\<open>src/erddapy/core/interfaces.py\<close> holds four functions,
  \<^verbatim>\<open>to_pandas\<close>, \<^verbatim>\<open>to_ncCF\<close>, \<^verbatim>\<open>to_xarray\<close> and \<^verbatim>\<open>to_iris\<close>.
  Each one marshals its arguments and calls collaborators: \<^verbatim>\<open>urlopen\<close>,
  \<^verbatim>\<open>_nc_dataset\<close>, \<^verbatim>\<open>_tempnc\<close>, \<^verbatim>\<open>pd.read_csv\<close>, \<^verbatim>\<open>xr.open_dataset\<close>,
  \<^verbatim>\<open>xr.backends.NetCDF4DataStore\<close>, \<^verbatim>\<open>iris.load_raw\<close> and the \<^verbatim>\<open>data\<close>
  property of a cube. The embedding keeps the control flow of the four functions and
  takes the collaborators as parameters: every theorem holds for every behaviour of
  theirs. A call of a collaborator is an effect, so the functions pass a world along:
  the sequence of collaborator calls made so far and the temporary files on disk.
\<close>

subsection \<open>Python values and keyword dictionaries\<close>

text \<open>
  The values that travel in keyword dictionaries (\<^verbatim>\<open>**kw\<close>, \<^verbatim>\<open>requests_kwargs\<close>)
  and in the untyped \<^verbatim>\<open>response\<close> parameter. \<^verbatim>\<open>auth\<close> is usually a tuple of two
  strings.
\<close>

datatype pyval =
    PyNone
  | PyBool bool
  | PyInt int
  | PyStr string
  | PyTuple "pyval list"

text \<open>
  A dictionary with string keys, in insertion order. A byte stream is the list of its
  bytes.
\<close>

type_synonym kwargs = "(string \<times> pyval) list"

type_synonym bytes = "char list"

text \<open>
  \<^verbatim>\<open>d.pop(key, default)\<close>: the value stored under the key, or the default, and the
  dictionary without the key.
\<close>

definition dict_pop :: "kwargs \<Rightarrow> string \<Rightarrow> pyval \<Rightarrow> pyval \<times> kwargs" where
  "dict_pop d key dflt =
     (case map_of d key of
        None \<Rightarrow> (dflt, d)
      | Some v \<Rightarrow> (v, filter (\<lambda>(k, _). k \<noteq> key) d))"

text \<open>
  \<^verbatim>\<open>if requests_kwargs is None: requests_kwargs = {}\<close>. The parameter defaults to
  \<^verbatim>\<open>None\<close>, so an omitted argument and an explicit \<^verbatim>\<open>None\<close> are both \<open>None\<close> here.
\<close>

definition or_empty :: "kwargs option \<Rightarrow> kwargs" where
  "or_empty requests_kwargs = (case requests_kwargs of None \<Rightarrow> [] | Some d \<Rightarrow> d)"

subsection \<open>Exceptions\<close>

text \<open>
  An exception has a class, a message and a cause (\<^verbatim>\<open>__cause__\<close>, set by
  \<^verbatim>\<open>raise ... from e\<close>). Of the class hierarchy the code observes one thing: whether
  the class derives from \<^verbatim>\<open>Exception\<close>, which is what \<^verbatim>\<open>except Exception\<close>
  catches. \<^verbatim>\<open>KeyboardInterrupt\<close>, \<^verbatim>\<open>SystemExit\<close> and \<^verbatim>\<open>GeneratorExit\<close> derive
  from \<^verbatim>\<open>BaseException\<close> only.
\<close>

datatype exn_class =
    ValueError
  | Exception_subclass string
  | BaseException_only string

datatype exn = Exn (class_of: exn_class) (message: string) (cause: "exn option")

definition is_Exception :: "exn \<Rightarrow> bool" where
  "is_Exception e = (case class_of e of BaseException_only _ \<Rightarrow> False | _ \<Rightarrow> True)"

subsection \<open>The world: collaborator calls and temporary files\<close>

text \<open>
  One event per call expression the code evaluates, with the arguments as the call
  site gives them: positional arguments, the \<^verbatim>\<open>auth=\<close> keyword and the unpacked
  dictionary. An error Python raises while binding these arguments to the callee's
  parameters is part of what the collaborator returns.
\<close>

datatype ('nc, 'store, 'cube) event =
    E_urlopen string kwargs
  | E_read_csv bytes kwargs
  | E_nc_dataset string pyval kwargs
  | E_open_dataset "string + 'store" kwargs
  | E_NetCDF4DataStore 'nc
  | E_tempnc_enter bytes string
  | E_tempnc_exit string
  | E_load_raw string kwargs
  | E_cube_data 'cube

record ('nc, 'store, 'cube) world =
  trace :: "('nc, 'store, 'cube) event list"
  files :: "(string \<times> bytes) list"

definition record_call ::
  "('nc, 'store, 'cube) event \<Rightarrow> ('nc, 'store, 'cube) world \<Rightarrow> ('nc, 'store, 'cube) world" where
  "record_call ev w = w\<lparr>trace := trace w @ [ev]\<rparr>"

text \<open>The calls a run added to the trace it started from.\<close>

definition new_calls ::
  "('nc, 'store, 'cube) world \<Rightarrow> ('nc, 'store, 'cube) world \<Rightarrow> ('nc, 'store, 'cube) event list" where
  "new_calls w w' = drop (length (trace w)) (trace w')"

text \<open>The first of them, when there is one.\<close>

definition first_call ::
  "('nc, 'store, 'cube) world \<Rightarrow> ('nc, 'store, 'cube) world \<Rightarrow> ('nc, 'store, 'cube) event option" where
  "first_call w w' = (case new_calls w w' of [] \<Rightarrow> None | ev # _ \<Rightarrow> Some ev)"

subsection \<open>The collaborators\<close>

text \<open>
  The collaborators, each a function from its arguments to the value it returns
  (\<open>Inr\<close>) or the exception it raises (\<open>Inl\<close>). Library objects (data frame, netCDF4
  dataset, data store, xarray dataset, cube) are opaque to the module, hence type
  parameters. \<^verbatim>\<open>xr.open_dataset\<close> takes a URL or a data store. \<^verbatim>\<open>iris.load_raw\<close>
  and \<^verbatim>\<open>cube.data\<close> read the file system; \<^verbatim>\<open>cube.data\<close> realises the data of a
  cube and gives the cube with its data loaded. \<open>tempnc_name\<close> picks the name of a
  new temporary file from the names in use. The \<^verbatim>\<open>import\<close> statements inside
  \<^verbatim>\<open>to_xarray\<close> and \<^verbatim>\<open>to_iris\<close> are taken to succeed.
\<close>

record ('frame, 'nc, 'store, 'xr, 'cube) env =
  urlopen :: "string \<Rightarrow> kwargs \<Rightarrow> exn + bytes"
  read_csv :: "bytes \<Rightarrow> kwargs \<Rightarrow> exn + 'frame"
  nc_dataset :: "string \<Rightarrow> pyval \<Rightarrow> kwargs \<Rightarrow> exn + 'nc"
  xr_open_dataset :: "string + 'store \<Rightarrow> kwargs \<Rightarrow> exn + 'xr"
  xr_NetCDF4DataStore :: "'nc \<Rightarrow> exn + 'store"
  iris_load_raw :: "(string \<times> bytes) list \<Rightarrow> string \<Rightarrow> kwargs \<Rightarrow> exn + 'cube list"
  cube_data :: "(string \<times> bytes) list \<Rightarrow> 'cube \<Rightarrow> exn + 'cube"
  tempnc_name :: "string list \<Rightarrow> string"

text \<open>
  Modelled from the spec: the context manager \<^verbatim>\<open>_tempnc\<close> of
  \<^verbatim>\<open>erddapy.core.netcdf\<close>, which is not among the source files. The spec: "A
  scoped-temporary-file capability: given byte content, yields a filesystem path valid
  for the duration of a scoped block, deleted afterward." Entering writes the bytes to
  a new file and yields its path.
\<close>

definition tempnc_enter ::
  "('frame, 'nc, 'store, 'xr, 'cube) env \<Rightarrow> bytes \<Rightarrow> ('nc, 'store, 'cube) world
     \<Rightarrow> string \<times> ('nc, 'store, 'cube) world" where
  "tempnc_enter env data w =
     (let tmp = tempnc_name env (map fst (files w))
      in (tmp, record_call (E_tempnc_enter data tmp)
                 (w\<lparr>files := (tmp, data) # filter (\<lambda>(p, _). p \<noteq> tmp) (files w)\<rparr>)))"

text \<open>
  Modelled from the spec: leaving the scope of \<^verbatim>\<open>_tempnc\<close> (same sentence of the
  spec) deletes the file.
\<close>

definition tempnc_exit :: "string \<Rightarrow> ('nc, 'store, 'cube) world \<Rightarrow> ('nc, 'store, 'cube) world" where
  "tempnc_exit tmp w =
     record_call (E_tempnc_exit tmp) (w\<lparr>files := filter (\<lambda>(p, _). p \<noteq> tmp) (files w)\<rparr>)"

subsection \<open>to_pandas\<close>

text \<open>
  \<^verbatim>\<open>
  def to_pandas(url, requests_kwargs=None, **kw):
      if requests_kwargs is None:
          requests_kwargs = {}
      data = urlopen(url, **requests_kwargs)
      try:
          return pd.read_csv(data, **kw)
      except Exception as e:
          raise ValueError(f"Could not read url {url} with Pandas.read_csv.") from e
  \<close>
\<close>

definition to_pandas ::
  "('frame, 'nc, 'store, 'xr, 'cube) env \<Rightarrow> string \<Rightarrow> kwargs option \<Rightarrow> kwargs
     \<Rightarrow> ('nc, 'store, 'cube) world \<Rightarrow> (exn + 'frame) \<times> ('nc, 'store, 'cube) world" where
  "to_pandas env url requests_kwargs kw w =
     (let requests_kwargs = or_empty requests_kwargs;
          w1 = record_call (E_urlopen url requests_kwargs) w
      in case urlopen env url requests_kwargs of
           Inl e \<Rightarrow> (Inl e, w1)
         | Inr data \<Rightarrow>
             (let w2 = record_call (E_read_csv data kw) w1
              in case read_csv env data kw of
                   Inr frame \<Rightarrow> (Inr frame, w2)
                 | Inl e \<Rightarrow>
                     if is_Exception e
                     then (Inl (Exn ValueError
                                  (''Could not read url '' @ url @ '' with Pandas.read_csv.'')
                                  (Some e)), w2)
                     else (Inl e, w2)))"

subsection \<open>to_ncCF\<close>

text \<open>
  \<^verbatim>\<open>
  def to_ncCF(url, protocol=None, **kw):
      if protocol == "griddap":
          raise ValueError(
              f"Cannot use .ncCF with griddap protocol. The URL you tried to access is: '{url}'.",
          )
      auth = kw.pop("auth", None)
      return _nc_dataset(url, auth=auth, **kw)
  \<close>
  The character \<open>CHR 0x27\<close> is the single quote around the URL.
\<close>

definition to_ncCF ::
  "('frame, 'nc, 'store, 'xr, 'cube) env \<Rightarrow> string \<Rightarrow> string option \<Rightarrow> kwargs
     \<Rightarrow> ('nc, 'store, 'cube) world \<Rightarrow> (exn + 'nc) \<times> ('nc, 'store, 'cube) world" where
  "to_ncCF env url protocol kw w =
     (if protocol = Some ''griddap''
      then (Inl (Exn ValueError
                   (''Cannot use .ncCF with griddap protocol. The URL you tried to access is: ''
                      @ [CHR 0x27] @ url @ [CHR 0x27] @ ''.'')
                   None), w)
      else (let (auth, kw) = dict_pop kw ''auth'' PyNone
            in (nc_dataset env url auth kw, record_call (E_nc_dataset url auth kw) w)))"

subsection \<open>to_xarray\<close>

text \<open>
  \<^verbatim>\<open>
  def to_xarray(url, response="opendap", requests_kwargs=None, **kw):
      import xarray as xr
      auth = kw.pop("auth", None)
      if response == "opendap":
          return xr.open_dataset(url, **kw)
      else:
          if requests_kwargs is None:
              requests_kwargs = {}
          nc = _nc_dataset(url, auth=auth, **requests_kwargs)
          return xr.open_dataset(xr.backends.NetCDF4DataStore(nc), **kw)
  \<close>
  The parameter \<^verbatim>\<open>response\<close> has no annotation, so it is any value; an omitted
  argument is the default \<open>response_default\<close>.
\<close>

definition response_default :: pyval where
  "response_default = PyStr ''opendap''"

definition to_xarray ::
  "('frame, 'nc, 'store, 'xr, 'cube) env \<Rightarrow> string \<Rightarrow> pyval \<Rightarrow> kwargs option \<Rightarrow> kwargs
     \<Rightarrow> ('nc, 'store, 'cube) world \<Rightarrow> (exn + 'xr) \<times> ('nc, 'store, 'cube) world" where
  "to_xarray env url response requests_kwargs kw w =
     (let (auth, kw) = dict_pop kw ''auth'' PyNone
      in if response = PyStr ''opendap''
         then (xr_open_dataset env (Inl url) kw, record_call (E_open_dataset (Inl url) kw) w)
         else (let requests_kwargs = or_empty requests_kwargs;
                   w1 = record_call (E_nc_dataset url auth requests_kwargs) w
               in case nc_dataset env url auth requests_kwargs of
                    Inl e \<Rightarrow> (Inl e, w1)
                  | Inr nc \<Rightarrow>
                      (let w2 = record_call (E_NetCDF4DataStore nc) w1
                       in case xr_NetCDF4DataStore env nc of
                            Inl e \<Rightarrow> (Inl e, w2)
                          | Inr store \<Rightarrow>
                              (xr_open_dataset env (Inr store) kw,
                               record_call (E_open_dataset (Inr store) kw) w2))))"

subsection \<open>to_iris\<close>

text \<open>
  \<^verbatim>\<open>
  def to_iris(url, requests_kwargs=None, **kw):
      import iris
      if requests_kwargs is None:
          requests_kwargs = {}
      data = urlopen(url, **requests_kwargs)
      with _tempnc(data) as tmp:
          cubes = iris.load_raw(tmp, **kw)
          _ = [cube.data for cube in cubes]
          return cubes
  \<close>
  The comprehension \<^verbatim>\<open>[cube.data for cube in cubes]\<close> reads the property of each
  cube in turn and stops at the first one that raises. The cubes it has read carry
  their data from then on, and they are the objects the function returns.
\<close>

fun realise_all ::
  "('frame, 'nc, 'store, 'xr, 'cube) env \<Rightarrow> 'cube list \<Rightarrow> ('nc, 'store, 'cube) world
     \<Rightarrow> (exn + 'cube list) \<times> ('nc, 'store, 'cube) world" where
  "realise_all env [] w = (Inr [], w)"
| "realise_all env (cube # cubes) w =
     (let w1 = record_call (E_cube_data cube) w
      in case cube_data env (files w) cube of
           Inl e \<Rightarrow> (Inl e, w1)
         | Inr cube' \<Rightarrow>
             (case realise_all env cubes w1 of
                (Inl e, w2) \<Rightarrow> (Inl e, w2)
              | (Inr cubes', w2) \<Rightarrow> (Inr (cube' # cubes'), w2)))"

text \<open>The block under \<^verbatim>\<open>with\<close>, run with the path the context manager yielded.\<close>

definition to_iris_body ::
  "('frame, 'nc, 'store, 'xr, 'cube) env \<Rightarrow> string \<Rightarrow> kwargs \<Rightarrow> ('nc, 'store, 'cube) world
     \<Rightarrow> (exn + 'cube list) \<times> ('nc, 'store, 'cube) world" where
  "to_iris_body env tmp kw w =
     (let w1 = record_call (E_load_raw tmp kw) w
      in case iris_load_raw env (files w) tmp kw of
           Inl e \<Rightarrow> (Inl e, w1)
         | Inr cubes \<Rightarrow> realise_all env cubes w1)"

text \<open>
  The \<^verbatim>\<open>with\<close> statement leaves the scope of the context manager on every way out
  of its block, a \<^verbatim>\<open>return\<close> or an exception, and the exception goes on to the
  caller.
\<close>

definition to_iris ::
  "('frame, 'nc, 'store, 'xr, 'cube) env \<Rightarrow> string \<Rightarrow> kwargs option \<Rightarrow> kwargs
     \<Rightarrow> ('nc, 'store, 'cube) world \<Rightarrow> (exn + 'cube list) \<times> ('nc, 'store, 'cube) world" where
  "to_iris env url requests_kwargs kw w =
     (let requests_kwargs = or_empty requests_kwargs;
          w1 = record_call (E_urlopen url requests_kwargs) w
      in case urlopen env url requests_kwargs of
           Inl e \<Rightarrow> (Inl e, w1)
         | Inr data \<Rightarrow>
             (let (tmp, w2) = tempnc_enter env data w1;
                  (r, w3) = to_iris_body env tmp kw w2
              in (r, tempnc_exit tmp w3)))"

text \<open>
  The world inside the \<^verbatim>\<open>with\<close> block of \<^verbatim>\<open>to_iris\<close>, when the fetch returned
  \<open>data\<close>: the fetch is recorded and the temporary file is written.
\<close>

definition in_scope ::
  "('frame, 'nc, 'store, 'xr, 'cube) env \<Rightarrow> string \<Rightarrow> kwargs option \<Rightarrow> bytes
     \<Rightarrow> ('nc, 'store, 'cube) world \<Rightarrow> ('nc, 'store, 'cube) world" where
  "in_scope env url requests_kwargs data w =
     snd (tempnc_enter env data (record_call (E_urlopen url (or_empty requests_kwargs)) w))"

subsection \<open>Reading a trace\<close>

text \<open>The calls that fetch bytes from the server: \<^verbatim>\<open>urlopen\<close> and \<^verbatim>\<open>_nc_dataset\<close>.\<close>

fun is_fetch :: "('nc, 'store, 'cube) event \<Rightarrow> bool" where
  "is_fetch (E_urlopen _ _) = True"
| "is_fetch (E_nc_dataset _ _ _) = True"
| "is_fetch _ = False"

text \<open>
  A call carries the credentials \<open>a\<close> when they are its \<^verbatim>\<open>auth=\<close> argument or stand
  under the key \<^verbatim>\<open>auth\<close> of its keyword dictionary.
\<close>

fun carries_auth :: "pyval \<Rightarrow> ('nc, 'store, 'cube) event \<Rightarrow> bool" where
  "carries_auth a (E_urlopen _ kw) = (map_of kw ''auth'' = Some a)"
| "carries_auth a (E_read_csv _ kw) = (map_of kw ''auth'' = Some a)"
| "carries_auth a (E_nc_dataset _ auth kw) = (auth = a \<or> map_of kw ''auth'' = Some a)"
| "carries_auth a (E_open_dataset _ kw) = (map_of kw ''auth'' = Some a)"
| "carries_auth a (E_load_raw _ kw) = (map_of kw ''auth'' = Some a)"
| "carries_auth a _ = False"

text \<open>The URLs a call is given.\<close>

fun event_urls :: "('nc, 'store, 'cube) event \<Rightarrow> string list" where
  "event_urls (E_urlopen u _) = [u]"
| "event_urls (E_nc_dataset u _ _) = [u]"
| "event_urls (E_open_dataset (Inl u) _) = [u]"
| "event_urls _ = []"

definition trace_urls :: "('nc, 'store, 'cube) event list \<Rightarrow> string list" where
  "trace_urls evs = concat (map event_urls evs)"

text \<open>The paths of the temporary files a trace creates.\<close>

fun tempnc_paths :: "('nc, 'store, 'cube) event list \<Rightarrow> string list" where
  "tempnc_paths [] = []"
| "tempnc_paths (E_tempnc_enter _ tmp # evs) = tmp # tempnc_paths evs"
| "tempnc_paths (_ # evs) = tempnc_paths evs"

subsection \<open>A server to run the functions on\<close>

text \<open>
  Concrete collaborators, for running the four functions: a server that is down at
  one URL, sends HTML at another and comma-separated values elsewhere; a dataset
  service that times out on \<^verbatim>\<open>timeout=0\<close> and opens a private dataset for the
  credentials \<^verbatim>\<open>("user", "pw")\<close>; cubes as a name and whether their data is loaded.
\<close>

definition demo_env :: "(nat, string, string, string, string \<times> bool) env" where
  "demo_env =
     \<lparr> urlopen = (\<lambda>url kw.
         if url = ''http://down''
         then Inl (Exn (Exception_subclass ''HTTPError'') ''503'' None)
         else if url = ''http://html'' then Inr ''<html>'' else Inr ''a,b''),
       read_csv = (\<lambda>data kw.
         if data = ''a,b'' then Inr 1
         else Inl (Exn (Exception_subclass ''ParserError'') ''no columns'' None)),
       nc_dataset = (\<lambda>url auth kw.
         if map_of kw ''timeout'' = Some (PyInt 0)
         then Inl (Exn (Exception_subclass ''Timeout'') ''timed out'' None)
         else if auth = PyTuple [PyStr ''user'', PyStr ''pw''] then Inr ''private.nc''
         else Inr ''public.nc''),
       xr_open_dataset = (\<lambda>src kw. Inr (case src of Inl u \<Rightarrow> ''dap:'' @ u | Inr s \<Rightarrow> s)),
       xr_NetCDF4DataStore = (\<lambda>nc. Inr (''store:'' @ nc)),
       iris_load_raw = (\<lambda>fs tmp kw.
         case map_of fs tmp of
           None \<Rightarrow> Inl (Exn (Exception_subclass ''OSError'') ''no such file'' None)
         | Some d \<Rightarrow>
             if d = ''a,b'' then Inr [(''sst'', False), (''sal'', False)]
             else Inl (Exn ValueError ''not a netCDF file'' None)),
       cube_data = (\<lambda>fs cube.
         if fs = [] then Inl (Exn (Exception_subclass ''OSError'') ''file is gone'' None)
         else Inr (fst cube, True)),
       tempnc_name = (\<lambda>used. ''/tmp/erddapy_0.nc'') \<rparr>"

definition w0 :: "(string, string, string \<times> bool) world" where
  "w0 = \<lparr> trace = [], files = [] \<rparr>"

text \<open>A world with a file of the user's on disk.\<close>

definition w1 :: "(string, string, string \<times> bool) world" where
  "w1 = \<lparr> trace = [], files = [(''/home/me/notes.txt'', ''keep'')] \<rparr>"

section \<open>Properties\<close>

subsection \<open>Traces, dictionaries and messages\<close>

lemma trace_record_call [simp]: "trace (record_call ev w) = trace w @ [ev]"
  by (simp add: record_call_def)

lemma files_record_call [simp]: "files (record_call ev w) = files w"
  by (simp add: record_call_def)

lemma new_calls_eq: "trace w' = trace w @ evs \<Longrightarrow> new_calls w w' = evs"
  by (simp add: new_calls_def)

lemma new_calls_same [simp]: "new_calls w w = []"
  by (simp add: new_calls_def)

lemma first_call_eq: "trace w' = trace w @ ev # evs \<Longrightarrow> first_call w w' = Some ev"
  by (simp add: first_call_def new_calls_def)

lemma trace_urls_Nil [simp]: "trace_urls [] = []"
  by (simp add: trace_urls_def)

lemma trace_urls_Cons [simp]: "trace_urls (ev # evs) = event_urls ev @ trace_urls evs"
  by (simp add: trace_urls_def)

lemma trace_urls_cube_data [simp]: "trace_urls (map E_cube_data cs @ evs) = trace_urls evs"
  by (induction cs) simp_all

lemma tempnc_paths_cube_data [simp]:
  "tempnc_paths (map E_cube_data cs @ evs) = tempnc_paths evs"
  by (induction cs) simp_all

lemma sublist_inside: "sublist u (p @ q @ u @ s)"
proof -
  have "sublist u ((p @ q) @ u @ s)"
    by (rule sublist_appendI)
  then show ?thesis
    by (simp only: append_assoc)
qed

lemma dict_pop_present:
  "map_of d key = Some v \<Longrightarrow> dict_pop d key dflt = (v, filter (\<lambda>(k, _). k \<noteq> key) d)"
  by (simp add: dict_pop_def)

lemma dict_pop_removes: "map_of (snd (dict_pop d key dflt)) key = None"
  by (induction d) (auto simp: dict_pop_def map_of_eq_None_iff split: option.splits)

subsection \<open>to_ncCF rejects the griddap protocol\<close>

text \<open>
  Claim C1. With the protocol \<^verbatim>\<open>"griddap"\<close>, \<^verbatim>\<open>to_ncCF\<close> raises a
  \<^verbatim>\<open>ValueError\<close> whose message holds the URL, and the world it leaves is the one
  it was given: no collaborator was called. With any other protocol, \<^verbatim>\<open>None\<close>
  among them, the outcome is the one of the single call of \<^verbatim>\<open>_nc_dataset\<close> that it
  makes, with the URL, the popped \<^verbatim>\<open>auth\<close> and the remaining keywords.
\<close>

theorem to_ncCF_griddap_guard:
  "to_ncCF env url (Some ''griddap'') kw w =
     (Inl (Exn ValueError
             (''Cannot use .ncCF with griddap protocol. The URL you tried to access is: ''
                @ [CHR 0x27] @ url @ [CHR 0x27] @ ''.'')
             None), w)
   \<and> sublist url
        (''Cannot use .ncCF with griddap protocol. The URL you tried to access is: ''
           @ [CHR 0x27] @ url @ [CHR 0x27] @ ''.'')
   \<and> new_calls w (snd (to_ncCF env url (Some ''griddap'') kw w)) = []
   \<and> (protocol \<noteq> Some ''griddap'' \<longrightarrow>
        to_ncCF env url protocol kw w =
          (nc_dataset env url (fst (dict_pop kw ''auth'' PyNone)) (snd (dict_pop kw ''auth'' PyNone)),
           record_call
             (E_nc_dataset url (fst (dict_pop kw ''auth'' PyNone)) (snd (dict_pop kw ''auth'' PyNone)))
             w))"
proof (intro conjI impI)
  show "to_ncCF env url (Some ''griddap'') kw w =
     (Inl (Exn ValueError
             (''Cannot use .ncCF with griddap protocol. The URL you tried to access is: ''
                @ [CHR 0x27] @ url @ [CHR 0x27] @ ''.'')
             None), w)"
    by (simp add: to_ncCF_def)
  then show "new_calls w (snd (to_ncCF env url (Some ''griddap'') kw w)) = []"
    by simp
  show "sublist url
        (''Cannot use .ncCF with griddap protocol. The URL you tried to access is: ''
           @ [CHR 0x27] @ url @ [CHR 0x27] @ ''.'')"
    by (rule sublist_inside)
next
  assume "protocol \<noteq> Some ''griddap''"
  then show "to_ncCF env url protocol kw w =
          (nc_dataset env url (fst (dict_pop kw ''auth'' PyNone)) (snd (dict_pop kw ''auth'' PyNone)),
           record_call
             (E_nc_dataset url (fst (dict_pop kw ''auth'' PyNone)) (snd (dict_pop kw ''auth'' PyNone)))
             w)"
    by (simp add: to_ncCF_def split: prod.splits)
qed

text \<open>
  The guard on the demo server: \<^verbatim>\<open>"griddap"\<close> raises and leaves the trace empty,
  no protocol opens the private dataset.
\<close>

theorem to_ncCF_griddap_guard_witness:
  "(None :: string option) \<noteq> Some ''griddap''
   \<and> to_ncCF demo_env ''http://ok'' (Some ''griddap'') [(''auth'', PyTuple [PyStr ''user'', PyStr ''pw''])] w0 =
       (Inl (Exn ValueError
          ''Cannot use .ncCF with griddap protocol. The URL you tried to access is: 'http://ok'.''
          None), w0)
   \<and> to_ncCF demo_env ''http://ok'' None [(''auth'', PyTuple [PyStr ''user'', PyStr ''pw''])] w0 =
       (Inr ''private.nc'',
        \<lparr> trace = [E_nc_dataset ''http://ok'' (PyTuple [PyStr ''user'', PyStr ''pw'']) []],
          files = [] \<rparr>)"
  using to_ncCF_griddap_guard
    [of demo_env "''http://ok''" "[(''auth'', PyTuple [PyStr ''user'', PyStr ''pw''])]" w0 None]
  by (simp add: demo_env_def w0_def dict_pop_def record_call_def)

subsection \<open>to_pandas: parse failures and transport failures\<close>

text \<open>
  Claim C2. When the fetch returned a byte stream and \<^verbatim>\<open>pd.read_csv\<close> raises an
  exception \<open>e\<close> on it (an instance of \<^verbatim>\<open>Exception\<close>, what the handler
  \<^verbatim>\<open>except Exception\<close> catches), \<^verbatim>\<open>to_pandas\<close> raises a \<^verbatim>\<open>ValueError\<close> whose
  message holds the URL and whose cause is \<open>e\<close>.
\<close>

theorem to_pandas_parse_failure:
  assumes "urlopen env url (or_empty requests_kwargs) = Inr data"
    and "read_csv env data kw = Inl e"
    and "is_Exception e"
  shows "fst (to_pandas env url requests_kwargs kw w) =
           Inl (Exn ValueError (''Could not read url '' @ url @ '' with Pandas.read_csv.'') (Some e))
         \<and> sublist url (''Could not read url '' @ url @ '' with Pandas.read_csv.'')"
proof (intro conjI)
  show "fst (to_pandas env url requests_kwargs kw w) =
          Inl (Exn ValueError (''Could not read url '' @ url @ '' with Pandas.read_csv.'') (Some e))"
    using assms by (simp add: to_pandas_def)
  show "sublist url (''Could not read url '' @ url @ '' with Pandas.read_csv.'')"
    by (rule sublist_appendI)
qed

text \<open>The demo server sends HTML, the parser rejects it, the error names the URL.\<close>

theorem to_pandas_parse_failure_witness:
  "urlopen demo_env ''http://html'' (or_empty None) = Inr ''<html>''
   \<and> read_csv demo_env ''<html>'' [] = Inl (Exn (Exception_subclass ''ParserError'') ''no columns'' None)
   \<and> is_Exception (Exn (Exception_subclass ''ParserError'') ''no columns'' None)
   \<and> fst (to_pandas demo_env ''http://html'' None [] w0) =
       Inl (Exn ValueError ''Could not read url http://html with Pandas.read_csv.''
              (Some (Exn (Exception_subclass ''ParserError'') ''no columns'' None)))"
proof -
  have a: "urlopen demo_env ''http://html'' (or_empty None) = Inr ''<html>''"
    by (simp add: demo_env_def or_empty_def)
  have b: "read_csv demo_env ''<html>'' [] = Inl (Exn (Exception_subclass ''ParserError'') ''no columns'' None)"
    by (simp add: demo_env_def)
  have c: "is_Exception (Exn (Exception_subclass ''ParserError'') ''no columns'' None)"
    by (simp add: is_Exception_def)
  show ?thesis
    using a b c to_pandas_parse_failure [OF a b c, of w0] by simp
qed

text \<open>
  The handler is \<^verbatim>\<open>except Exception\<close>: what \<^verbatim>\<open>pd.read_csv\<close> raises outside that
  class (a \<^verbatim>\<open>KeyboardInterrupt\<close> during parsing) reaches the caller as it is.
\<close>

lemma to_pandas_base_exception_passes:
  assumes "urlopen env url (or_empty requests_kwargs) = Inr data"
    and "read_csv env data kw = Inl e"
    and "\<not> is_Exception e"
  shows "fst (to_pandas env url requests_kwargs kw w) = Inl e"
  using assms by (simp add: to_pandas_def)

text \<open>
  Claim C7. When \<^verbatim>\<open>urlopen\<close> raises \<open>e\<close>, \<^verbatim>\<open>to_pandas\<close> raises \<open>e\<close> itself,
  whatever its class, and the call of \<^verbatim>\<open>urlopen\<close> is the only call made: the
  \<^verbatim>\<open>try\<close> block with \<^verbatim>\<open>pd.read_csv\<close> is never entered.
\<close>

theorem to_pandas_transport_failure:
  assumes "urlopen env url (or_empty requests_kwargs) = Inl e"
  shows "to_pandas env url requests_kwargs kw w =
           (Inl e, record_call (E_urlopen url (or_empty requests_kwargs)) w)"
  using assms by (simp add: to_pandas_def)

text \<open>The demo server is down: its error comes back unwrapped.\<close>

theorem to_pandas_transport_failure_witness:
  "urlopen demo_env ''http://down'' (or_empty None) =
     Inl (Exn (Exception_subclass ''HTTPError'') ''503'' None)
   \<and> to_pandas demo_env ''http://down'' None [] w0 =
       (Inl (Exn (Exception_subclass ''HTTPError'') ''503'' None),
        \<lparr> trace = [E_urlopen ''http://down'' []], files = [] \<rparr>)"
proof -
  have a: "urlopen demo_env ''http://down'' (or_empty None) =
     Inl (Exn (Exception_subclass ''HTTPError'') ''503'' None)"
    by (simp add: demo_env_def or_empty_def)
  show ?thesis
    using a to_pandas_transport_failure [OF a, of "[]" w0]
    by (simp add: w0_def record_call_def or_empty_def)
qed

subsection \<open>to_xarray: the response mode decides who is called\<close>

lemma to_xarray_default_branch:
  "to_xarray env url (PyStr ''opendap'') requests_kwargs kw w =
     (xr_open_dataset env (Inl url) (snd (dict_pop kw ''auth'' PyNone)),
      record_call (E_open_dataset (Inl url) (snd (dict_pop kw ''auth'' PyNone))) w)"
  by (simp add: to_xarray_def split: prod.splits)

lemma to_xarray_other_first_call:
  assumes "response \<noteq> PyStr ''opendap''"
  shows "first_call w (snd (to_xarray env url response requests_kwargs kw w)) =
           Some (E_nc_dataset url (fst (dict_pop kw ''auth'' PyNone)) (or_empty requests_kwargs))"
  using assms
  by (simp add: to_xarray_def first_call_def new_calls_def Let_def split: prod.splits sum.splits)

text \<open>
  The outcome of \<^verbatim>\<open>to_ncCF\<close> and of \<^verbatim>\<open>to_xarray\<close>, result and world, from the
  answers of the collaborators at the arguments they are applied to.
\<close>

lemma to_ncCF_outcome:
  assumes "protocol \<noteq> Some ''griddap''"
  shows "to_ncCF env url protocol kw w =
     (nc_dataset env url (fst (dict_pop kw ''auth'' PyNone)) (snd (dict_pop kw ''auth'' PyNone)),
      record_call
        (E_nc_dataset url (fst (dict_pop kw ''auth'' PyNone)) (snd (dict_pop kw ''auth'' PyNone))) w)"
  using assms by (simp add: to_ncCF_def split: prod.splits)

lemma to_xarray_outcome:
  "to_xarray env url response requests_kwargs kw w =
     (if response = response_default
      then (xr_open_dataset env (Inl url) (snd (dict_pop kw ''auth'' PyNone)),
            record_call (E_open_dataset (Inl url) (snd (dict_pop kw ''auth'' PyNone))) w)
      else (case nc_dataset env url (fst (dict_pop kw ''auth'' PyNone)) (or_empty requests_kwargs) of
              Inl e \<Rightarrow>
                (Inl e,
                 record_call
                   (E_nc_dataset url (fst (dict_pop kw ''auth'' PyNone)) (or_empty requests_kwargs)) w)
            | Inr nc \<Rightarrow>
                (case xr_NetCDF4DataStore env nc of
                   Inl e \<Rightarrow>
                     (Inl e,
                      record_call (E_NetCDF4DataStore nc)
                        (record_call
                           (E_nc_dataset url (fst (dict_pop kw ''auth'' PyNone))
                              (or_empty requests_kwargs)) w))
                 | Inr store \<Rightarrow>
                     (xr_open_dataset env (Inr store) (snd (dict_pop kw ''auth'' PyNone)),
                      record_call (E_open_dataset (Inr store) (snd (dict_pop kw ''auth'' PyNone)))
                        (record_call (E_NetCDF4DataStore nc)
                           (record_call
                              (E_nc_dataset url (fst (dict_pop kw ''auth'' PyNone))
                                 (or_empty requests_kwargs)) w))))))"
  by (simp add: to_xarray_def response_default_def Let_def split: prod.splits sum.splits)

text \<open>
  Claim C4. With the default response mode \<^verbatim>\<open>"opendap"\<close>, \<^verbatim>\<open>to_xarray\<close> makes
  one call, \<^verbatim>\<open>xr.open_dataset\<close> on the URL itself, and its outcome is the outcome
  of that call: neither \<^verbatim>\<open>urlopen\<close> nor \<^verbatim>\<open>_nc_dataset\<close> is called.
\<close>

theorem to_xarray_opendap_no_fetch:
  "to_xarray env url response_default requests_kwargs kw w =
     (xr_open_dataset env (Inl url) (snd (dict_pop kw ''auth'' PyNone)),
      record_call (E_open_dataset (Inl url) (snd (dict_pop kw ''auth'' PyNone))) w)
   \<and> new_calls w (snd (to_xarray env url response_default requests_kwargs kw w)) =
       [E_open_dataset (Inl url) (snd (dict_pop kw ''auth'' PyNone))]
   \<and> filter is_fetch (new_calls w (snd (to_xarray env url response_default requests_kwargs kw w))) = []"
  by (simp add: response_default_def to_xarray_default_branch new_calls_def)

text \<open>On the demo server, with request options given: the only call opens the URL.\<close>

theorem to_xarray_opendap_no_fetch_witness:
  "to_xarray demo_env ''http://ok'' response_default (Some [(''timeout'', PyInt 0)]) [] w0 =
     (Inr ''dap:http://ok'', \<lparr> trace = [E_open_dataset (Inl ''http://ok'') []], files = [] \<rparr>)"
  using to_xarray_opendap_no_fetch [of demo_env "''http://ok''" "Some [(''timeout'', PyInt 0)]" "[]" w0]
  by (simp add: demo_env_def w0_def dict_pop_def record_call_def)




subsection \<open>Where the credentials go\<close>

text \<open>
  Claim C6 says that \<^verbatim>\<open>to_xarray\<close> passes the supplied \<^verbatim>\<open>auth\<close> on in every
  response mode. In the default mode it does not: \<^verbatim>\<open>auth\<close> is popped from the
  keywords before the branch and the only call, \<^verbatim>\<open>xr.open_dataset(url, **kw)\<close>,
  is made without it.
\<close>

theorem to_xarray_opendap_drops_auth_counterexample:
  "new_calls w0
     (snd (to_xarray demo_env ''http://ok'' response_default None
             [(''auth'', PyTuple [PyStr ''user'', PyStr ''pw''])] w0)) =
     [E_open_dataset (Inl ''http://ok'') []]
   \<and> \<not> list_ex (carries_auth (PyTuple [PyStr ''user'', PyStr ''pw'']))
        (new_calls w0
           (snd (to_xarray demo_env ''http://ok'' response_default None
                   [(''auth'', PyTuple [PyStr ''user'', PyStr ''pw''])] w0)))"
  by (simp add: response_default_def to_xarray_def demo_env_def w0_def dict_pop_def new_calls_def)

text \<open>
  Claim C6, amended. When the keywords hold \<^verbatim>\<open>auth\<close>: \<^verbatim>\<open>to_ncCF\<close>, for a
  protocol other than \<^verbatim>\<open>"griddap"\<close>, and \<^verbatim>\<open>to_xarray\<close>, in every response mode
  other than the default, pass that value to \<^verbatim>\<open>_nc_dataset\<close> as its \<^verbatim>\<open>auth\<close>
  argument: their outcome is the one that the answer of \<^verbatim>\<open>_nc_dataset\<close> to the
  URL, these credentials and the options decides, and the call is the first in the
  trace. In the default response mode the outcome of \<^verbatim>\<open>to_xarray\<close> is the answer of
  \<^verbatim>\<open>xr.open_dataset\<close> to the URL and the keywords without \<^verbatim>\<open>auth\<close>, and no
  call carries the credentials.
\<close>

theorem auth_forwarded:
  assumes "map_of kw ''auth'' = Some a"
  shows "(protocol \<noteq> Some ''griddap'' \<longrightarrow>
            to_ncCF env url protocol kw w =
              (nc_dataset env url a (filter (\<lambda>(k, _). k \<noteq> ''auth'') kw),
               record_call (E_nc_dataset url a (filter (\<lambda>(k, _). k \<noteq> ''auth'') kw)) w))
         \<and> (protocol \<noteq> Some ''griddap'' \<longrightarrow>
            new_calls w (snd (to_ncCF env url protocol kw w)) =
              [E_nc_dataset url a (filter (\<lambda>(k, _). k \<noteq> ''auth'') kw)])
         \<and> (response \<noteq> response_default \<longrightarrow>
            to_xarray env url response requests_kwargs kw w =
              (case nc_dataset env url a (or_empty requests_kwargs) of
                 Inl e \<Rightarrow>
                   (Inl e, record_call (E_nc_dataset url a (or_empty requests_kwargs)) w)
               | Inr nc \<Rightarrow>
                   (case xr_NetCDF4DataStore env nc of
                      Inl e \<Rightarrow>
                        (Inl e,
                         record_call (E_NetCDF4DataStore nc)
                           (record_call (E_nc_dataset url a (or_empty requests_kwargs)) w))
                    | Inr store \<Rightarrow>
                        (xr_open_dataset env (Inr store) (filter (\<lambda>(k, _). k \<noteq> ''auth'') kw),
                         record_call
                           (E_open_dataset (Inr store) (filter (\<lambda>(k, _). k \<noteq> ''auth'') kw))
                           (record_call (E_NetCDF4DataStore nc)
                              (record_call (E_nc_dataset url a (or_empty requests_kwargs)) w))))))
         \<and> (response \<noteq> response_default \<longrightarrow>
            first_call w (snd (to_xarray env url response requests_kwargs kw w)) =
              Some (E_nc_dataset url a (or_empty requests_kwargs)))
         \<and> to_xarray env url response_default requests_kwargs kw w =
              (xr_open_dataset env (Inl url) (filter (\<lambda>(k, _). k \<noteq> ''auth'') kw),
               record_call (E_open_dataset (Inl url) (filter (\<lambda>(k, _). k \<noteq> ''auth'') kw)) w)
         \<and> new_calls w (snd (to_xarray env url response_default requests_kwargs kw w)) =
              [E_open_dataset (Inl url) (filter (\<lambda>(k, _). k \<noteq> ''auth'') kw)]
         \<and> \<not> list_ex (carries_auth a)
              (new_calls w (snd (to_xarray env url response_default requests_kwargs kw w)))"
proof -
  have pop: "dict_pop kw ''auth'' PyNone = (a, filter (\<lambda>(k, _). k \<noteq> ''auth'') kw)"
    using assms by (rule dict_pop_present)
  have gone: "map_of (filter (\<lambda>(k, _). k \<noteq> ''auth'') kw) ''auth'' = None"
    using dict_pop_removes [of kw "''auth''" PyNone] by (simp add: pop)
  have nc_out: "protocol \<noteq> Some ''griddap'' \<Longrightarrow>
      to_ncCF env url protocol kw w =
        (nc_dataset env url a (filter (\<lambda>(k, _). k \<noteq> ''auth'') kw),
         record_call (E_nc_dataset url a (filter (\<lambda>(k, _). k \<noteq> ''auth'') kw)) w)"
    using to_ncCF_outcome [of protocol env url kw w] by (simp add: pop)
  have nc: "protocol \<noteq> Some ''griddap'' \<Longrightarrow>
      new_calls w (snd (to_ncCF env url protocol kw w)) =
        [E_nc_dataset url a (filter (\<lambda>(k, _). k \<noteq> ''auth'') kw)]"
    by (simp add: nc_out new_calls_def)
  have xr_out: "response \<noteq> response_default \<Longrightarrow>
      to_xarray env url response requests_kwargs kw w =
        (case nc_dataset env url a (or_empty requests_kwargs) of
           Inl e \<Rightarrow>
             (Inl e, record_call (E_nc_dataset url a (or_empty requests_kwargs)) w)
         | Inr nc \<Rightarrow>
             (case xr_NetCDF4DataStore env nc of
                Inl e \<Rightarrow>
                  (Inl e,
                   record_call (E_NetCDF4DataStore nc)
                     (record_call (E_nc_dataset url a (or_empty requests_kwargs)) w))
              | Inr store \<Rightarrow>
                  (xr_open_dataset env (Inr store) (filter (\<lambda>(k, _). k \<noteq> ''auth'') kw),
                   record_call
                     (E_open_dataset (Inr store) (filter (\<lambda>(k, _). k \<noteq> ''auth'') kw))
                     (record_call (E_NetCDF4DataStore nc)
                        (record_call (E_nc_dataset url a (or_empty requests_kwargs)) w)))))"
    using to_xarray_outcome [of env url response requests_kwargs kw w]
    by (simp add: pop cong: sum.case_cong)
  have xr: "response \<noteq> response_default \<Longrightarrow>
      first_call w (snd (to_xarray env url response requests_kwargs kw w)) =
        Some (E_nc_dataset url a (or_empty requests_kwargs))"
    using to_xarray_other_first_call [of response w env url requests_kwargs kw]
    by (simp add: response_default_def pop)
  have dap_out: "to_xarray env url response_default requests_kwargs kw w =
      (xr_open_dataset env (Inl url) (filter (\<lambda>(k, _). k \<noteq> ''auth'') kw),
       record_call (E_open_dataset (Inl url) (filter (\<lambda>(k, _). k \<noteq> ''auth'') kw)) w)"
    by (simp add: response_default_def to_xarray_default_branch pop)
  have dap: "new_calls w (snd (to_xarray env url response_default requests_kwargs kw w)) =
      [E_open_dataset (Inl url) (filter (\<lambda>(k, _). k \<noteq> ''auth'') kw)]"
    by (simp add: dap_out new_calls_def)
  have none: "\<not> list_ex (carries_auth a)
      (new_calls w (snd (to_xarray env url response_default requests_kwargs kw w)))"
    by (simp add: dap gone)
  show ?thesis
    by (intro conjI impI) (rule nc_out nc xr_out xr dap_out dap none, assumption?)+
qed

text \<open>
  The credentials of the demo server, through both functions: with them
  \<^verbatim>\<open>_nc_dataset\<close> opens the private dataset, which is what comes back.
\<close>

theorem auth_forwarded_witness:
  "map_of [(''auth'', PyTuple [PyStr ''user'', PyStr ''pw'']), (''decode_times'', PyBool False)] ''auth''
     = Some (PyTuple [PyStr ''user'', PyStr ''pw''])
   \<and> (None :: string option) \<noteq> Some ''griddap''
   \<and> PyStr ''nc'' \<noteq> response_default
   \<and> to_ncCF demo_env ''http://ok'' None
        [(''auth'', PyTuple [PyStr ''user'', PyStr ''pw'']), (''decode_times'', PyBool False)] w0 =
       (Inr ''private.nc'',
        \<lparr> trace = [E_nc_dataset ''http://ok'' (PyTuple [PyStr ''user'', PyStr ''pw''])
                     [(''decode_times'', PyBool False)]],
          files = [] \<rparr>)
   \<and> new_calls w0 (snd (to_ncCF demo_env ''http://ok'' None
        [(''auth'', PyTuple [PyStr ''user'', PyStr ''pw'']), (''decode_times'', PyBool False)] w0)) =
       [E_nc_dataset ''http://ok'' (PyTuple [PyStr ''user'', PyStr ''pw''])
          [(''decode_times'', PyBool False)]]
   \<and> to_xarray demo_env ''http://ok'' (PyStr ''nc'') None
        [(''auth'', PyTuple [PyStr ''user'', PyStr ''pw'']), (''decode_times'', PyBool False)] w0 =
       (Inr ''store:private.nc'',
        \<lparr> trace = [E_nc_dataset ''http://ok'' (PyTuple [PyStr ''user'', PyStr ''pw'']) [],
                   E_NetCDF4DataStore ''private.nc'',
                   E_open_dataset (Inr ''store:private.nc'') [(''decode_times'', PyBool False)]],
          files = [] \<rparr>)
   \<and> first_call w0 (snd (to_xarray demo_env ''http://ok'' (PyStr ''nc'') None
        [(''auth'', PyTuple [PyStr ''user'', PyStr ''pw'']), (''decode_times'', PyBool False)] w0)) =
       Some (E_nc_dataset ''http://ok'' (PyTuple [PyStr ''user'', PyStr ''pw'']) [])
   \<and> to_xarray demo_env ''http://ok'' response_default None
        [(''auth'', PyTuple [PyStr ''user'', PyStr ''pw'']), (''decode_times'', PyBool False)] w0 =
       (Inr ''dap:http://ok'',
        \<lparr> trace = [E_open_dataset (Inl ''http://ok'') [(''decode_times'', PyBool False)]],
          files = [] \<rparr>)
   \<and> new_calls w0 (snd (to_xarray demo_env ''http://ok'' response_default None
        [(''auth'', PyTuple [PyStr ''user'', PyStr ''pw'']), (''decode_times'', PyBool False)] w0)) =
       [E_open_dataset (Inl ''http://ok'') [(''decode_times'', PyBool False)]]"
proof -
  have a: "map_of [(''auth'', PyTuple [PyStr ''user'', PyStr ''pw'']), (''decode_times'', PyBool False)] ''auth''
     = Some (PyTuple [PyStr ''user'', PyStr ''pw''])"
    by simp
  have b: "PyStr ''nc'' \<noteq> response_default"
    by (simp add: response_default_def)
  show ?thesis
    using a b
      auth_forwarded
        [OF a, where protocol = None and w = w0 and env = demo_env and url = "''http://ok''"
           and response = "PyStr ''nc''" and requests_kwargs = None]
    by (simp add: or_empty_def demo_env_def w0_def record_call_def new_calls_def first_call_def)
qed

subsection \<open>to_iris: the calls it makes and the files it leaves\<close>

text \<open>
  Reading the data of the cubes changes no file, records one call per cube read, and
  when it succeeds every cube was read, against the files of the world it started in.
\<close>

lemma realise_all_snd_Cons:
  "snd (realise_all env (cube # cubes) w) =
     (case cube_data env (files w) cube of
        Inl e \<Rightarrow> record_call (E_cube_data cube) w
      | Inr c' \<Rightarrow> snd (realise_all env cubes (record_call (E_cube_data cube) w)))"
  by (simp add: Let_def split: sum.splits prod.splits)

lemma realise_all_files: "files (snd (realise_all env cubes w)) = files w"
proof (induction cubes arbitrary: w)
  case Nil
  show ?case by simp
next
  case (Cons cube cubes)
  show ?case
    unfolding realise_all_snd_Cons
    by (cases "cube_data env (files w) cube") (simp_all add: Cons.IH)
qed

lemma realise_all_trace:
  "\<exists>n. trace (snd (realise_all env cubes w)) = trace w @ map E_cube_data (take n cubes)"
proof (induction cubes arbitrary: w)
  case Nil
  show ?case by simp
next
  case (Cons cube cubes)
  show ?case
  proof (cases "cube_data env (files w) cube")
    case (Inl e)
    then have "trace (snd (realise_all env (cube # cubes) w)) =
        trace w @ map E_cube_data (take (Suc 0) (cube # cubes))"
      unfolding realise_all_snd_Cons by simp
    then show ?thesis by blast
  next
    case (Inr cube')
    obtain n where n: "trace (snd (realise_all env cubes (record_call (E_cube_data cube) w))) =
        trace (record_call (E_cube_data cube) w) @ map E_cube_data (take n cubes)"
      using Cons.IH by blast
    have "trace (snd (realise_all env (cube # cubes) w)) =
        trace w @ map E_cube_data (take (Suc n) (cube # cubes))"
      unfolding realise_all_snd_Cons using Inr n by simp
    then show ?thesis by blast
  qed
qed

lemma realise_all_Inr:
  "realise_all env cubes w = (Inr cubes', w') \<Longrightarrow>
     list_all2 (\<lambda>c c'. cube_data env (files w) c = Inr c') cubes cubes'
     \<and> trace w' = trace w @ map E_cube_data cubes \<and> files w' = files w"
proof (induction cubes arbitrary: w cubes' w')
  case Nil
  then show ?case by simp
next
  case (Cons cube cubes)
  from Cons.prems obtain c' cs' where
    c': "cube_data env (files w) cube = Inr c'" and
    rest: "realise_all env cubes (record_call (E_cube_data cube) w) = (Inr cs', w')" and
    eq: "cubes' = c' # cs'"
    by (auto simp: Let_def split: sum.splits prod.splits)
  from Cons.IH [OF rest] c' eq show ?case
    by simp
qed

lemma to_iris_body_files: "files (snd (to_iris_body env tmp kw w)) = files w"
  by (simp add: to_iris_body_def Let_def realise_all_files split: sum.splits)

lemma to_iris_body_trace:
  "\<exists>cs. trace (snd (to_iris_body env tmp kw w)) = trace w @ E_load_raw tmp kw # map E_cube_data cs"
proof (cases "iris_load_raw env (files w) tmp kw")
  case (Inl e)
  then have "trace (snd (to_iris_body env tmp kw w)) = trace w @ E_load_raw tmp kw # map E_cube_data []"
    by (simp add: to_iris_body_def)
  then show ?thesis by blast
next
  case (Inr cubes)
  obtain n where "trace (snd (realise_all env cubes (record_call (E_load_raw tmp kw) w))) =
      trace (record_call (E_load_raw tmp kw) w) @ map E_cube_data (take n cubes)"
    using realise_all_trace by blast
  then have "trace (snd (to_iris_body env tmp kw w)) =
      trace w @ E_load_raw tmp kw # map E_cube_data (take n cubes)"
    using Inr by (simp add: to_iris_body_def)
  then show ?thesis by blast
qed

lemma to_iris_fetch_failed:
  "urlopen env url (or_empty requests_kwargs) = Inl e \<Longrightarrow>
     to_iris env url requests_kwargs kw w =
       (Inl e, record_call (E_urlopen url (or_empty requests_kwargs)) w)"
  by (simp add: to_iris_def)

lemma to_iris_fetched:
  assumes "urlopen env url (or_empty requests_kwargs) = Inr data"
  shows "to_iris env url requests_kwargs kw w =
     (fst (to_iris_body env (tempnc_name env (map fst (files w))) kw
             (in_scope env url requests_kwargs data w)),
      tempnc_exit (tempnc_name env (map fst (files w)))
        (snd (to_iris_body env (tempnc_name env (map fst (files w))) kw
                (in_scope env url requests_kwargs data w))))"
  using assms
  by (simp add: to_iris_def in_scope_def tempnc_enter_def Let_def split: prod.splits)

lemma in_scope_files:
  "files (in_scope env url requests_kwargs data w) =
     (tempnc_name env (map fst (files w)), data)
       # filter (\<lambda>(p, _). p \<noteq> tempnc_name env (map fst (files w))) (files w)"
  by (simp add: in_scope_def tempnc_enter_def Let_def)

lemma in_scope_trace:
  "trace (in_scope env url requests_kwargs data w) =
     trace w @ [E_urlopen url (or_empty requests_kwargs),
                E_tempnc_enter data (tempnc_name env (map fst (files w)))]"
  by (simp add: in_scope_def tempnc_enter_def Let_def)

lemma to_iris_fetched_files:
  assumes "urlopen env url (or_empty requests_kwargs) = Inr data"
  shows "files (snd (to_iris env url requests_kwargs kw w)) =
     filter (\<lambda>(p, _). p \<noteq> tempnc_name env (map fst (files w))) (files w)"
  by (simp add: to_iris_fetched [OF assms] tempnc_exit_def to_iris_body_files in_scope_files)

lemma to_iris_fetched_calls:
  assumes "urlopen env url (or_empty requests_kwargs) = Inr data"
  shows "\<exists>cs. new_calls w (snd (to_iris env url requests_kwargs kw w)) =
     [E_urlopen url (or_empty requests_kwargs),
      E_tempnc_enter data (tempnc_name env (map fst (files w))),
      E_load_raw (tempnc_name env (map fst (files w))) kw]
     @ map E_cube_data cs @ [E_tempnc_exit (tempnc_name env (map fst (files w)))]"
proof -
  obtain cs where "trace (snd (to_iris_body env (tempnc_name env (map fst (files w))) kw
                (in_scope env url requests_kwargs data w))) =
      trace (in_scope env url requests_kwargs data w)
        @ E_load_raw (tempnc_name env (map fst (files w))) kw # map E_cube_data cs"
    using to_iris_body_trace by blast
  then have "trace (snd (to_iris env url requests_kwargs kw w)) = trace w @
     ([E_urlopen url (or_empty requests_kwargs),
      E_tempnc_enter data (tempnc_name env (map fst (files w))),
      E_load_raw (tempnc_name env (map fst (files w))) kw]
     @ map E_cube_data cs @ [E_tempnc_exit (tempnc_name env (map fst (files w)))])"
    by (simp add: to_iris_fetched [OF assms] tempnc_exit_def in_scope_trace)
  then show ?thesis
    using new_calls_eq by blast
qed

text \<open>
  Claim C3. After any call of \<^verbatim>\<open>to_iris\<close>, returned or raised, no temporary file
  the call created is on disk. When the fetch raises, no temporary file is created and
  the files are those from before. When the fetch returns, one temporary file is
  created, and afterwards it is gone, whether \<^verbatim>\<open>iris.load_raw\<close> or a
  \<^verbatim>\<open>cube.data\<close> raised or all of them returned.
\<close>

theorem to_iris_tempfile_removed:
  "(\<forall>tmp \<in> set (tempnc_paths (new_calls w (snd (to_iris env url requests_kwargs kw w)))).
      tmp \<notin> fst ` set (files (snd (to_iris env url requests_kwargs kw w))))
   \<and> (case urlopen env url (or_empty requests_kwargs) of
        Inl e \<Rightarrow>
          tempnc_paths (new_calls w (snd (to_iris env url requests_kwargs kw w))) = []
          \<and> files (snd (to_iris env url requests_kwargs kw w)) = files w
      | Inr data \<Rightarrow>
          tempnc_paths (new_calls w (snd (to_iris env url requests_kwargs kw w))) =
            [tempnc_name env (map fst (files w))]
          \<and> files (snd (to_iris env url requests_kwargs kw w)) =
              filter (\<lambda>(p, _). p \<noteq> tempnc_name env (map fst (files w))) (files w))"
proof (cases "urlopen env url (or_empty requests_kwargs)")
  case (Inl e)
  have "new_calls w (snd (to_iris env url requests_kwargs kw w)) =
      [E_urlopen url (or_empty requests_kwargs)]"
    by (simp add: to_iris_fetch_failed [OF Inl] new_calls_def)
  then show ?thesis
    using Inl by (simp add: to_iris_fetch_failed [OF Inl])
next
  case (Inr data)
  obtain cs where cs: "new_calls w (snd (to_iris env url requests_kwargs kw w)) =
     [E_urlopen url (or_empty requests_kwargs),
      E_tempnc_enter data (tempnc_name env (map fst (files w))),
      E_load_raw (tempnc_name env (map fst (files w))) kw]
     @ map E_cube_data cs @ [E_tempnc_exit (tempnc_name env (map fst (files w)))]"
    using to_iris_fetched_calls [OF Inr] by blast
  have paths: "tempnc_paths (new_calls w (snd (to_iris env url requests_kwargs kw w))) =
      [tempnc_name env (map fst (files w))]"
    by (simp add: cs)
  have fs: "files (snd (to_iris env url requests_kwargs kw w)) =
      filter (\<lambda>(p, _). p \<noteq> tempnc_name env (map fst (files w))) (files w)"
    by (rule to_iris_fetched_files [OF Inr])
  have gone: "tempnc_name env (map fst (files w)) \<notin>
      fst ` set (filter (\<lambda>(p, _). p \<noteq> tempnc_name env (map fst (files w))) (files w))"
    by auto
  show ?thesis
    using Inr paths fs gone by simp
qed

text \<open>Two runs on the demo server, kept for the examples below.\<close>

lemma trace_w1: "trace w1 = []"
  by (simp add: w1_def)

lemma demo_iris_html:
  "to_iris demo_env ''http://html'' None [] w1 =
     (Inl (Exn ValueError ''not a netCDF file'' None),
      \<lparr> trace = [E_urlopen ''http://html'' [], E_tempnc_enter ''<html>'' ''/tmp/erddapy_0.nc'',
                 E_load_raw ''/tmp/erddapy_0.nc'' [], E_tempnc_exit ''/tmp/erddapy_0.nc''],
        files = [(''/home/me/notes.txt'', ''keep'')] \<rparr>)"
  by code_simp

lemma demo_iris_ok:
  "to_iris demo_env ''http://ok'' None [] w1 =
     (Inr [(''sst'', True), (''sal'', True)],
      \<lparr> trace = [E_urlopen ''http://ok'' [], E_tempnc_enter ''a,b'' ''/tmp/erddapy_0.nc'',
                 E_load_raw ''/tmp/erddapy_0.nc'' [], E_cube_data (''sst'', False),
                 E_cube_data (''sal'', False), E_tempnc_exit ''/tmp/erddapy_0.nc''],
        files = [(''/home/me/notes.txt'', ''keep'')] \<rparr>)"
  by code_simp

text \<open>
  A run that raises while loading the cubes and a run that returns: in both the
  temporary file is gone.
\<close>

theorem to_iris_tempfile_removed_witness:
  "fst (to_iris demo_env ''http://html'' None [] w1) = Inl (Exn ValueError ''not a netCDF file'' None)
   \<and> tempnc_paths (new_calls w1 (snd (to_iris demo_env ''http://html'' None [] w1))) = [''/tmp/erddapy_0.nc'']
   \<and> ''/tmp/erddapy_0.nc'' \<notin> fst ` set (files (snd (to_iris demo_env ''http://html'' None [] w1)))
   \<and> fst (to_iris demo_env ''http://ok'' None [] w1) = Inr [(''sst'', True), (''sal'', True)]
   \<and> tempnc_paths (new_calls w1 (snd (to_iris demo_env ''http://ok'' None [] w1))) = [''/tmp/erddapy_0.nc'']
   \<and> ''/tmp/erddapy_0.nc'' \<notin> fst ` set (files (snd (to_iris demo_env ''http://ok'' None [] w1)))"
  using to_iris_tempfile_removed [of w1 demo_env "''http://html''" None "[]"]
    to_iris_tempfile_removed [of w1 demo_env "''http://ok''" None "[]"]
  by (simp add: demo_iris_html demo_iris_ok new_calls_def trace_w1)

text \<open>
  Claim C8. When \<^verbatim>\<open>to_iris\<close> returns cubes, the fetch returned some \<open>data\<close>,
  \<^verbatim>\<open>iris.load_raw\<close> returned some \<open>cubes\<close> from the temporary file, and
  \<^verbatim>\<open>cube.data\<close> was read for every one of them and returned, each time against
  the files inside the scope, where the temporary file exists. The calls are, in this
  order: the fetch, entering the scope, \<^verbatim>\<open>iris.load_raw\<close>, one \<^verbatim>\<open>cube.data\<close>
  per loaded cube, leaving the scope. The file is gone only after that.
\<close>

theorem to_iris_eager_data:
  assumes "to_iris env url requests_kwargs kw w = (Inr cubes', w')"
  shows "\<exists>data cubes.
           urlopen env url (or_empty requests_kwargs) = Inr data
           \<and> tempnc_name env (map fst (files w))
               \<in> fst ` set (files (in_scope env url requests_kwargs data w))
           \<and> iris_load_raw env (files (in_scope env url requests_kwargs data w))
               (tempnc_name env (map fst (files w))) kw = Inr cubes
           \<and> list_all2
               (\<lambda>c c'. cube_data env (files (in_scope env url requests_kwargs data w)) c = Inr c')
               cubes cubes'
           \<and> new_calls w w' =
               [E_urlopen url (or_empty requests_kwargs),
                E_tempnc_enter data (tempnc_name env (map fst (files w))),
                E_load_raw (tempnc_name env (map fst (files w))) kw]
               @ map E_cube_data cubes
               @ [E_tempnc_exit (tempnc_name env (map fst (files w)))]
           \<and> tempnc_name env (map fst (files w)) \<notin> fst ` set (files w')"
proof -
  let ?tmp = "tempnc_name env (map fst (files w))"
  obtain data where data: "urlopen env url (or_empty requests_kwargs) = Inr data"
    using assms by (cases "urlopen env url (or_empty requests_kwargs)") (simp_all add: to_iris_def)
  let ?w2 = "in_scope env url requests_kwargs data w"
  have body: "fst (to_iris_body env ?tmp kw ?w2) = Inr cubes'"
    and w': "w' = tempnc_exit ?tmp (snd (to_iris_body env ?tmp kw ?w2))"
    using assms by (simp_all add: to_iris_fetched [OF data])
  obtain cubes where cubes: "iris_load_raw env (files ?w2) ?tmp kw = Inr cubes"
    using body by (cases "iris_load_raw env (files ?w2) ?tmp kw") (simp_all add: to_iris_body_def)
  have "realise_all env cubes (record_call (E_load_raw ?tmp kw) ?w2) =
      (Inr cubes', snd (to_iris_body env ?tmp kw ?w2))"
    using body cubes by (simp add: to_iris_body_def prod_eq_iff)
  from realise_all_Inr [OF this]
  have all: "list_all2 (\<lambda>c c'. cube_data env (files ?w2) c = Inr c') cubes cubes'"
    and tr: "trace (snd (to_iris_body env ?tmp kw ?w2)) =
      trace ?w2 @ E_load_raw ?tmp kw # map E_cube_data cubes"
    by simp_all
  have "trace w' = trace w @ ([E_urlopen url (or_empty requests_kwargs), E_tempnc_enter data ?tmp,
      E_load_raw ?tmp kw] @ map E_cube_data cubes @ [E_tempnc_exit ?tmp])"
    by (simp add: w' tempnc_exit_def tr in_scope_trace)
  then have calls: "new_calls w w' = [E_urlopen url (or_empty requests_kwargs), E_tempnc_enter data ?tmp,
      E_load_raw ?tmp kw] @ map E_cube_data cubes @ [E_tempnc_exit ?tmp]"
    by (rule new_calls_eq)
  have there: "?tmp \<in> fst ` set (files ?w2)"
    by (simp add: in_scope_files)
  have gone: "?tmp \<notin> fst ` set (files w')"
    by (auto simp: w' tempnc_exit_def)
  show ?thesis
    using data there cubes all calls gone by blast
qed

text \<open>The run of the demo server that returns two cubes, both with their data.\<close>

theorem to_iris_eager_data_witness:
  "to_iris demo_env ''http://ok'' None [] w1 =
     (Inr [(''sst'', True), (''sal'', True)],
      \<lparr> trace = [E_urlopen ''http://ok'' [], E_tempnc_enter ''a,b'' ''/tmp/erddapy_0.nc'',
                 E_load_raw ''/tmp/erddapy_0.nc'' [], E_cube_data (''sst'', False),
                 E_cube_data (''sal'', False), E_tempnc_exit ''/tmp/erddapy_0.nc''],
        files = [(''/home/me/notes.txt'', ''keep'')] \<rparr>)
   \<and> files (in_scope demo_env ''http://ok'' None ''a,b'' w1) =
       [(''/tmp/erddapy_0.nc'', ''a,b''), (''/home/me/notes.txt'', ''keep'')]
   \<and> list_all2
       (\<lambda>c c'. cube_data demo_env (files (in_scope demo_env ''http://ok'' None ''a,b'' w1)) c = Inr c')
       [(''sst'', False), (''sal'', False)] [(''sst'', True), (''sal'', True)]"
  using demo_iris_ok to_iris_eager_data [OF demo_iris_ok]
  by (simp add: in_scope_files) (simp add: demo_env_def w1_def)

subsection \<open>The first call and the URLs\<close>

lemma to_pandas_first_call:
  "first_call w (snd (to_pandas env url requests_kwargs kw w)) =
     Some (E_urlopen url (or_empty requests_kwargs))"
  by (simp add: to_pandas_def first_call_def new_calls_def Let_def split: sum.splits)

lemma to_iris_first_call:
  "first_call w (snd (to_iris env url requests_kwargs kw w)) =
     Some (E_urlopen url (or_empty requests_kwargs))"
proof (cases "urlopen env url (or_empty requests_kwargs)")
  case (Inl e)
  show ?thesis
    by (simp add: to_iris_fetch_failed [OF Inl] first_call_def new_calls_def)
next
  case (Inr data)
  show ?thesis
    using to_iris_fetched_calls [OF Inr, where kw = kw and w = w] by (auto simp: first_call_def)
qed

lemma to_pandas_urls:
  "list_all (\<lambda>u. u = url) (trace_urls (new_calls w (snd (to_pandas env url requests_kwargs kw w))))"
  by (simp add: to_pandas_def new_calls_def Let_def split: sum.splits)

lemma to_ncCF_urls:
  "list_all (\<lambda>u. u = url) (trace_urls (new_calls w (snd (to_ncCF env url protocol kw w))))"
  by (simp add: to_ncCF_def new_calls_def split: prod.splits)

lemma to_xarray_urls:
  "list_all (\<lambda>u. u = url)
     (trace_urls (new_calls w (snd (to_xarray env url response requests_kwargs kw w))))"
  by (simp add: to_xarray_def new_calls_def Let_def split: prod.splits sum.splits)

lemma to_iris_urls:
  "list_all (\<lambda>u. u = url) (trace_urls (new_calls w (snd (to_iris env url requests_kwargs kw w))))"
proof (cases "urlopen env url (or_empty requests_kwargs)")
  case (Inl e)
  show ?thesis
    by (simp add: to_iris_fetch_failed [OF Inl] new_calls_def)
next
  case (Inr data)
  show ?thesis
    using to_iris_fetched_calls [OF Inr, where kw = kw and w = w] by auto
qed

lemma to_xarray_first_call:
  "first_call w (snd (to_xarray env url response requests_kwargs kw w)) =
     Some (if response = response_default
           then E_open_dataset (Inl url) (snd (dict_pop kw ''auth'' PyNone))
           else E_nc_dataset url (fst (dict_pop kw ''auth'' PyNone)) (or_empty requests_kwargs))"
  by (simp add: to_xarray_def response_default_def first_call_def new_calls_def Let_def
      split: prod.splits sum.splits)

text \<open>
  Claim C9. For \<^verbatim>\<open>to_pandas\<close> and \<^verbatim>\<open>to_iris\<close>, and for \<^verbatim>\<open>to_xarray\<close> in a
  response mode other than the default, \<^verbatim>\<open>requests_kwargs=None\<close> and
  \<^verbatim>\<open>requests_kwargs={}\<close> give the same outcome and the same world, and the fetch
  is called with no options.
\<close>

theorem requests_kwargs_None_is_empty:
  "to_pandas env url None kw w = to_pandas env url (Some []) kw w
   \<and> first_call w (snd (to_pandas env url None kw w)) = Some (E_urlopen url [])
   \<and> to_iris env url None kw w = to_iris env url (Some []) kw w
   \<and> first_call w (snd (to_iris env url None kw w)) = Some (E_urlopen url [])
   \<and> (response \<noteq> response_default \<longrightarrow>
        to_xarray env url response None kw w = to_xarray env url response (Some []) kw w
        \<and> first_call w (snd (to_xarray env url response None kw w)) =
            Some (E_nc_dataset url (fst (dict_pop kw ''auth'' PyNone)) []))"
proof (intro conjI impI)
  show "to_pandas env url None kw w = to_pandas env url (Some []) kw w"
    by (simp add: to_pandas_def or_empty_def Let_def)
  show "first_call w (snd (to_pandas env url None kw w)) = Some (E_urlopen url [])"
    by (simp add: to_pandas_first_call or_empty_def)
  show "to_iris env url None kw w = to_iris env url (Some []) kw w"
    by (simp add: to_iris_def or_empty_def Let_def)
  show "first_call w (snd (to_iris env url None kw w)) = Some (E_urlopen url [])"
    by (simp add: to_iris_first_call or_empty_def)
  show "to_xarray env url response None kw w = to_xarray env url response (Some []) kw w"
    by (simp add: to_xarray_def or_empty_def Let_def split: prod.splits)
next
  assume "response \<noteq> response_default"
  then show "first_call w (snd (to_xarray env url response None kw w)) =
      Some (E_nc_dataset url (fst (dict_pop kw ''auth'' PyNone)) [])"
    by (simp add: to_xarray_first_call or_empty_def)
qed

text \<open>Two more runs on the demo server.\<close>

lemma demo_pandas_ok:
  "to_pandas demo_env ''http://ok'' None [] w0 =
     (Inr 1, \<lparr> trace = [E_urlopen ''http://ok'' [], E_read_csv ''a,b'' []], files = [] \<rparr>)"
  by code_simp

lemma demo_xarray_nc:
  "to_xarray demo_env ''http://ok'' (PyStr ''nc'') None [] w0 =
     (Inr ''store:public.nc'',
      \<lparr> trace = [E_nc_dataset ''http://ok'' PyNone [], E_NetCDF4DataStore ''public.nc'',
                 E_open_dataset (Inr ''store:public.nc'') []],
        files = [] \<rparr>)"
  by code_simp

text \<open>The empty dictionary gives the runs that \<^verbatim>\<open>None\<close> gives.\<close>

theorem requests_kwargs_None_is_empty_witness:
  "PyStr ''nc'' \<noteq> response_default
   \<and> to_pandas demo_env ''http://ok'' (Some []) [] w0 =
       (Inr 1, \<lparr> trace = [E_urlopen ''http://ok'' [], E_read_csv ''a,b'' []], files = [] \<rparr>)
   \<and> to_iris demo_env ''http://ok'' (Some []) [] w1 = to_iris demo_env ''http://ok'' None [] w1
   \<and> to_xarray demo_env ''http://ok'' (PyStr ''nc'') (Some []) [] w0 =
       (Inr ''store:public.nc'',
        \<lparr> trace = [E_nc_dataset ''http://ok'' PyNone [], E_NetCDF4DataStore ''public.nc'',
                   E_open_dataset (Inr ''store:public.nc'') []],
          files = [] \<rparr>)"
proof -
  have a: "PyStr ''nc'' \<noteq> response_default"
    by (simp add: response_default_def)
  show ?thesis
    using a requests_kwargs_None_is_empty [of demo_env "''http://ok''" "[]" w0 "PyStr ''nc''"]
      requests_kwargs_None_is_empty [of demo_env "''http://ok''" "[]" w1 "PyStr ''nc''"]
      demo_pandas_ok demo_xarray_nc
    by simp
qed

text \<open>
  The outcome of \<^verbatim>\<open>to_pandas\<close> and of \<^verbatim>\<open>to_iris\<close>, result and world, from the
  answers of the collaborators at the arguments they are applied to.
\<close>

lemma to_pandas_outcome:
  "to_pandas env url requests_kwargs kw w =
     (case urlopen env url (or_empty requests_kwargs) of
        Inl e \<Rightarrow> (Inl e, record_call (E_urlopen url (or_empty requests_kwargs)) w)
      | Inr data \<Rightarrow>
          (case read_csv env data kw of
             Inr frame \<Rightarrow> Inr frame
           | Inl e \<Rightarrow>
               if is_Exception e
               then Inl (Exn ValueError
                           (''Could not read url '' @ url @ '' with Pandas.read_csv.'') (Some e))
               else Inl e,
           record_call (E_read_csv data kw)
             (record_call (E_urlopen url (or_empty requests_kwargs)) w)))"
  by (simp add: to_pandas_def Let_def split: sum.splits)

lemma to_iris_outcome:
  "to_iris env url requests_kwargs kw w =
     (case urlopen env url (or_empty requests_kwargs) of
        Inl e \<Rightarrow> (Inl e, record_call (E_urlopen url (or_empty requests_kwargs)) w)
      | Inr data \<Rightarrow>
          (fst (to_iris_body env (tempnc_name env (map fst (files w))) kw
                  (in_scope env url requests_kwargs data w)),
           tempnc_exit (tempnc_name env (map fst (files w)))
             (snd (to_iris_body env (tempnc_name env (map fst (files w))) kw
                     (in_scope env url requests_kwargs data w)))))"
  by (cases "urlopen env url (or_empty requests_kwargs)")
    (simp_all add: to_iris_fetch_failed to_iris_fetched)

text \<open>
  Claim C10. None of the four functions changes the URL. The outcome of each, result
  and world, is the one that the answers of its collaborators to the caller's URL
  decide: \<^verbatim>\<open>urlopen\<close> in \<^verbatim>\<open>to_pandas\<close> and \<^verbatim>\<open>to_iris\<close>, \<^verbatim>\<open>_nc_dataset\<close> in
  \<^verbatim>\<open>to_ncCF\<close>, \<^verbatim>\<open>xr.open_dataset\<close> or \<^verbatim>\<open>_nc_dataset\<close> in \<^verbatim>\<open>to_xarray\<close>.
  That call is the first in the trace, every URL given to any call is the caller's,
  and the two errors the module raises itself hold the URL as it came.
\<close>

theorem url_passed_unchanged:
  "to_pandas env url requests_kwargs kw w =
     (case urlopen env url (or_empty requests_kwargs) of
        Inl e \<Rightarrow> (Inl e, record_call (E_urlopen url (or_empty requests_kwargs)) w)
      | Inr data \<Rightarrow>
          (case read_csv env data kw of
             Inr frame \<Rightarrow> Inr frame
           | Inl e \<Rightarrow>
               if is_Exception e
               then Inl (Exn ValueError
                           (''Could not read url '' @ url @ '' with Pandas.read_csv.'') (Some e))
               else Inl e,
           record_call (E_read_csv data kw)
             (record_call (E_urlopen url (or_empty requests_kwargs)) w)))
   \<and> first_call w (snd (to_pandas env url requests_kwargs kw w)) =
     Some (E_urlopen url (or_empty requests_kwargs))
   \<and> list_all (\<lambda>u. u = url)
       (trace_urls (new_calls w (snd (to_pandas env url requests_kwargs kw w))))
   \<and> (urlopen env url (or_empty requests_kwargs) = Inr data \<and> read_csv env data kw = Inl e
        \<and> is_Exception e \<longrightarrow>
      fst (to_pandas env url requests_kwargs kw w) =
        Inl (Exn ValueError (''Could not read url '' @ url @ '' with Pandas.read_csv.'') (Some e)))
   \<and> fst (to_ncCF env url (Some ''griddap'') kw w) =
       Inl (Exn ValueError
              (''Cannot use .ncCF with griddap protocol. The URL you tried to access is: ''
                 @ [CHR 0x27] @ url @ [CHR 0x27] @ ''.'')
              None)
   \<and> (protocol \<noteq> Some ''griddap'' \<longrightarrow>
      to_ncCF env url protocol kw w =
        (nc_dataset env url (fst (dict_pop kw ''auth'' PyNone)) (snd (dict_pop kw ''auth'' PyNone)),
         record_call
           (E_nc_dataset url (fst (dict_pop kw ''auth'' PyNone)) (snd (dict_pop kw ''auth'' PyNone)))
           w))
   \<and> (protocol \<noteq> Some ''griddap'' \<longrightarrow>
      first_call w (snd (to_ncCF env url protocol kw w)) =
        Some (E_nc_dataset url (fst (dict_pop kw ''auth'' PyNone)) (snd (dict_pop kw ''auth'' PyNone))))
   \<and> list_all (\<lambda>u. u = url) (trace_urls (new_calls w (snd (to_ncCF env url protocol kw w))))
   \<and> to_xarray env url response requests_kwargs kw w =
       (if response = response_default
        then (xr_open_dataset env (Inl url) (snd (dict_pop kw ''auth'' PyNone)),
              record_call (E_open_dataset (Inl url) (snd (dict_pop kw ''auth'' PyNone))) w)
        else (case nc_dataset env url (fst (dict_pop kw ''auth'' PyNone))
                     (or_empty requests_kwargs) of
                Inl e \<Rightarrow>
                  (Inl e,
                   record_call
                     (E_nc_dataset url (fst (dict_pop kw ''auth'' PyNone))
                        (or_empty requests_kwargs)) w)
              | Inr nc \<Rightarrow>
                  (case xr_NetCDF4DataStore env nc of
                     Inl e \<Rightarrow>
                       (Inl e,
                        record_call (E_NetCDF4DataStore nc)
                          (record_call
                             (E_nc_dataset url (fst (dict_pop kw ''auth'' PyNone))
                                (or_empty requests_kwargs)) w))
                   | Inr store \<Rightarrow>
                       (xr_open_dataset env (Inr store) (snd (dict_pop kw ''auth'' PyNone)),
                        record_call
                          (E_open_dataset (Inr store) (snd (dict_pop kw ''auth'' PyNone)))
                          (record_call (E_NetCDF4DataStore nc)
                             (record_call
                                (E_nc_dataset url (fst (dict_pop kw ''auth'' PyNone))
                                   (or_empty requests_kwargs)) w))))))
   \<and> first_call w (snd (to_xarray env url response requests_kwargs kw w)) =
       Some (if response = response_default
             then E_open_dataset (Inl url) (snd (dict_pop kw ''auth'' PyNone))
             else E_nc_dataset url (fst (dict_pop kw ''auth'' PyNone)) (or_empty requests_kwargs))
   \<and> list_all (\<lambda>u. u = url)
       (trace_urls (new_calls w (snd (to_xarray env url response requests_kwargs kw w))))
   \<and> to_iris env url requests_kwargs kw w =
       (case urlopen env url (or_empty requests_kwargs) of
          Inl e \<Rightarrow> (Inl e, record_call (E_urlopen url (or_empty requests_kwargs)) w)
        | Inr data \<Rightarrow>
            (fst (to_iris_body env (tempnc_name env (map fst (files w))) kw
                    (in_scope env url requests_kwargs data w)),
             tempnc_exit (tempnc_name env (map fst (files w)))
               (snd (to_iris_body env (tempnc_name env (map fst (files w))) kw
                       (in_scope env url requests_kwargs data w)))))
   \<and> first_call w (snd (to_iris env url requests_kwargs kw w)) =
       Some (E_urlopen url (or_empty requests_kwargs))
   \<and> list_all (\<lambda>u. u = url)
       (trace_urls (new_calls w (snd (to_iris env url requests_kwargs kw w))))"
proof (intro conjI impI)
  show "fst (to_ncCF env url (Some ''griddap'') kw w) =
       Inl (Exn ValueError
              (''Cannot use .ncCF with griddap protocol. The URL you tried to access is: ''
                 @ [CHR 0x27] @ url @ [CHR 0x27] @ ''.'')
              None)"
    by (simp add: to_ncCF_def)
next
  assume "urlopen env url (or_empty requests_kwargs) = Inr data \<and> read_csv env data kw = Inl e
        \<and> is_Exception e"
  then show "fst (to_pandas env url requests_kwargs kw w) =
        Inl (Exn ValueError (''Could not read url '' @ url @ '' with Pandas.read_csv.'') (Some e))"
    by (simp add: to_pandas_def)
next
  assume "protocol \<noteq> Some ''griddap''"
  then show "first_call w (snd (to_ncCF env url protocol kw w)) =
        Some (E_nc_dataset url (fst (dict_pop kw ''auth'' PyNone)) (snd (dict_pop kw ''auth'' PyNone)))"
    by (simp add: to_ncCF_def first_call_def new_calls_def split: prod.splits)
next
  assume "protocol \<noteq> Some ''griddap''"
  then show "to_ncCF env url protocol kw w =
        (nc_dataset env url (fst (dict_pop kw ''auth'' PyNone)) (snd (dict_pop kw ''auth'' PyNone)),
         record_call
           (E_nc_dataset url (fst (dict_pop kw ''auth'' PyNone)) (snd (dict_pop kw ''auth'' PyNone)))
           w)"
    by (rule to_ncCF_outcome)
qed (rule to_pandas_outcome to_pandas_first_call to_pandas_urls to_ncCF_urls to_xarray_outcome
      to_xarray_first_call to_xarray_urls to_iris_outcome to_iris_first_call to_iris_urls)+

text \<open>
  The URL \<^verbatim>\<open>http://html\<close> on the demo server: what the server answers to this
  URL is what comes back from each function.
\<close>

theorem url_passed_unchanged_witness:
  "urlopen demo_env ''http://html'' (or_empty None) = Inr ''<html>''
   \<and> read_csv demo_env ''<html>'' [] = Inl (Exn (Exception_subclass ''ParserError'') ''no columns'' None)
   \<and> is_Exception (Exn (Exception_subclass ''ParserError'') ''no columns'' None)
   \<and> (None :: string option) \<noteq> Some ''griddap''
   \<and> to_pandas demo_env ''http://html'' None [] w0 =
       (Inl (Exn ValueError ''Could not read url http://html with Pandas.read_csv.''
               (Some (Exn (Exception_subclass ''ParserError'') ''no columns'' None))),
        \<lparr> trace = [E_urlopen ''http://html'' [], E_read_csv ''<html>'' []], files = [] \<rparr>)
   \<and> first_call w0 (snd (to_pandas demo_env ''http://html'' None [] w0)) =
       Some (E_urlopen ''http://html'' [])
   \<and> to_ncCF demo_env ''http://html'' None [] w0 =
       (Inr ''public.nc'', \<lparr> trace = [E_nc_dataset ''http://html'' PyNone []], files = [] \<rparr>)
   \<and> first_call w0 (snd (to_ncCF demo_env ''http://html'' None [] w0)) =
       Some (E_nc_dataset ''http://html'' PyNone [])
   \<and> to_xarray demo_env ''http://html'' (PyStr ''nc'') None [] w0 =
       (Inr ''store:public.nc'',
        \<lparr> trace = [E_nc_dataset ''http://html'' PyNone [], E_NetCDF4DataStore ''public.nc'',
                   E_open_dataset (Inr ''store:public.nc'') []],
          files = [] \<rparr>)
   \<and> to_xarray demo_env ''http://html'' response_default None [] w0 =
       (Inr ''dap:http://html'',
        \<lparr> trace = [E_open_dataset (Inl ''http://html'') []], files = [] \<rparr>)
   \<and> fst (to_iris demo_env ''http://html'' None [] w0) =
       Inl (Exn ValueError ''not a netCDF file'' None)
   \<and> first_call w0 (snd (to_iris demo_env ''http://html'' None [] w0)) =
       Some (E_urlopen ''http://html'' [])
   \<and> fst (to_iris demo_env ''http://down'' None [] w0) =
       Inl (Exn (Exception_subclass ''HTTPError'') ''503'' None)"
proof -
  have a: "urlopen demo_env ''http://html'' (or_empty None) = Inr ''<html>''"
    by (simp add: demo_env_def or_empty_def)
  have b: "read_csv demo_env ''<html>'' [] = Inl (Exn (Exception_subclass ''ParserError'') ''no columns'' None)"
    by (simp add: demo_env_def)
  have c: "is_Exception (Exn (Exception_subclass ''ParserError'') ''no columns'' None)"
    by (simp add: is_Exception_def)
  have iris_html: "to_iris demo_env ''http://html'' None [] w0 =
      (Inl (Exn ValueError ''not a netCDF file'' None),
       \<lparr> trace = [E_urlopen ''http://html'' [], E_tempnc_enter ''<html>'' ''/tmp/erddapy_0.nc'',
                  E_load_raw ''/tmp/erddapy_0.nc'' [], E_tempnc_exit ''/tmp/erddapy_0.nc''],
         files = [] \<rparr>)"
    by code_simp
  have xr_nc: "to_xarray demo_env ''http://html'' (PyStr ''nc'') None [] w0 =
       (Inr ''store:public.nc'',
        \<lparr> trace = [E_nc_dataset ''http://html'' PyNone [], E_NetCDF4DataStore ''public.nc'',
                   E_open_dataset (Inr ''store:public.nc'') []],
          files = [] \<rparr>)"
    using url_passed_unchanged
        [where w = w0 and env = demo_env and url = "''http://html''" and requests_kwargs = None
           and kw = "[]" and data = "''<html>''"
           and e = "Exn (Exception_subclass ''ParserError'') ''no columns'' None"
           and protocol = None and response = "PyStr ''nc''"]
    by (simp add: response_default_def dict_pop_def or_empty_def demo_env_def w0_def record_call_def)
  have xr_dap: "to_xarray demo_env ''http://html'' response_default None [] w0 =
       (Inr ''dap:http://html'',
        \<lparr> trace = [E_open_dataset (Inl ''http://html'') []], files = [] \<rparr>)"
    using url_passed_unchanged
        [where w = w0 and env = demo_env and url = "''http://html''" and requests_kwargs = None
           and kw = "[]" and data = "''<html>''"
           and e = "Exn (Exception_subclass ''ParserError'') ''no columns'' None"
           and protocol = None and response = response_default]
    by (simp add: dict_pop_def demo_env_def w0_def record_call_def)
  have iris_down: "fst (to_iris demo_env ''http://down'' None [] w0) =
       Inl (Exn (Exception_subclass ''HTTPError'') ''503'' None)"
    using url_passed_unchanged
        [where w = w0 and env = demo_env and url = "''http://down''" and requests_kwargs = None
           and kw = "[]" and data = "''<html>''"
           and e = "Exn (Exception_subclass ''ParserError'') ''no columns'' None"
           and protocol = None and response = "PyStr ''nc''"]
    by (simp add: or_empty_def demo_env_def)
  have pandas: "to_pandas demo_env ''http://html'' None [] w0 =
       (Inl (Exn ValueError ''Could not read url http://html with Pandas.read_csv.''
               (Some (Exn (Exception_subclass ''ParserError'') ''no columns'' None))),
        \<lparr> trace = [E_urlopen ''http://html'' [], E_read_csv ''<html>'' []], files = [] \<rparr>)"
    using url_passed_unchanged
        [where w = w0 and env = demo_env and url = "''http://html''" and requests_kwargs = None
           and kw = "[]" and data = "''<html>''"
           and e = "Exn (Exception_subclass ''ParserError'') ''no columns'' None"
           and protocol = None and response = "PyStr ''nc''"]
    by (simp add: or_empty_def demo_env_def is_Exception_def w0_def record_call_def)
  have ncCF: "to_ncCF demo_env ''http://html'' None [] w0 =
       (Inr ''public.nc'', \<lparr> trace = [E_nc_dataset ''http://html'' PyNone []], files = [] \<rparr>)"
    using url_passed_unchanged
        [where w = w0 and env = demo_env and url = "''http://html''" and requests_kwargs = None
           and kw = "[]" and data = "''<html>''"
           and e = "Exn (Exception_subclass ''ParserError'') ''no columns'' None"
           and protocol = None and response = "PyStr ''nc''"]
    by (simp add: dict_pop_def demo_env_def w0_def record_call_def)
  have t0: "trace w0 = []"
    by (simp add: w0_def)
  have firsts: "first_call w0 (snd (to_pandas demo_env ''http://html'' None [] w0)) =
       Some (E_urlopen ''http://html'' [])
   \<and> first_call w0 (snd (to_ncCF demo_env ''http://html'' None [] w0)) =
       Some (E_nc_dataset ''http://html'' PyNone [])
   \<and> first_call w0 (snd (to_iris demo_env ''http://html'' None [] w0)) =
       Some (E_urlopen ''http://html'' [])"
    by (simp add: pandas ncCF iris_html first_call_def new_calls_def t0)
  show ?thesis
    using a b c iris_html xr_nc xr_dap iris_down pandas ncCF firsts by simp
qed

end
